theory Spec2Isabelle
  imports Main "HOL-Library.Multiset"
begin

section \<open>Python values and exceptions\<close>

text \<open>
  Policy fragments and events are Python dictionaries whose values are arbitrary
  YAML/JSON data. A dictionary is an association list (Python dictionaries keep
  insertion order); \<open>None\<close> where a dictionary is expected is the \<open>None\<close> of
  \<open>option\<close>.
\<close>

datatype pyval =
    VNone
  | VBool bool
  | VInt int
  | VStr string
  | VList "pyval list"
  | VDict "(string \<times> pyval) list"

type_synonym pydict = "(string \<times> pyval) list"

text \<open>Python truthiness, as \<open>not x\<close>, \<open>x and y\<close>, \<open>x or y\<close> test it.\<close>

fun truthy :: "pyval \<Rightarrow> bool" where
  "truthy VNone = False"
| "truthy (VBool b) = b"
| "truthy (VInt i) = (i \<noteq> 0)"
| "truthy (VStr s) = (s \<noteq> [])"
| "truthy (VList xs) = (xs \<noteq> [])"
| "truthy (VDict d) = (d \<noteq> [])"

text \<open>Truthiness of an argument that is a dictionary or \<open>None\<close>.\<close>

fun truthy_dict :: "pydict option \<Rightarrow> bool" where
  "truthy_dict None = False"
| "truthy_dict (Some d) = (d \<noteq> [])"

text \<open>
  The exceptions the module raises or lets through. \<open>ClientError code\<close> is botocore's
  \<open>ClientError\<close> with \<open>e.response['Error']['Code'] = code\<close>; \<open>ValueError\<close> carries its
  argument; \<open>AttributeError\<close> carries the attribute name; \<open>LookupError\<close> is the failure
  of a registry subscript, with the key; \<open>OtherError\<close> is any exception of another
  class, identified by a message.
\<close>

datatype exn =
    ClientError string
  | ValueError string
  | AttributeError string
  | LookupError string
  | OtherError string

section \<open>Filter nodes\<close>

text \<open>
  A filter object as the module reads it: \<open>f.type\<close>, \<open>f.filters\<close> (read only on the
  combinators \<open>or\<close>, \<open>and\<close>, \<open>not\<close>) and \<open>f.process(resources, event)\<close>. The process
  method is external code: it may raise, and it may have effects, which are threaded
  through a world state \<open>'w\<close>.
\<close>

datatype ('r, 'w) filter_node =
  Filter (ftype: string)
         (filters: "('r, 'w) filter_node list")
         (process: "'r list \<Rightarrow> pydict option \<Rightarrow> 'w \<Rightarrow> (exn + 'r list) \<times> 'w")

section \<open>iter_filters\<close>

text \<open>
  \<^verbatim>\<open>
  def iter_filters(filters, block_end=False):
      queue = deque(filters)
      while queue:
          f = queue.popleft()
          if f is not None and f.type in ('or', 'and', 'not'):
              if block_end:
                  queue.appendleft(None)
              for gf in f.filters:
                  queue.appendleft(gf)
          yield f
  \<close>
  The deque is a list whose head is its left end; its elements are filters or the
  sentinel \<open>None\<close>. The generator is modelled by the list of everything it yields. The
  \<open>while\<close> loop has no structural bound, so it is a partial function: \<open>None\<close> is the
  loop that never ends.
\<close>

definition appendleft :: "'a \<Rightarrow> 'a list \<Rightarrow> 'a list" where
  "appendleft x queue = x # queue"

definition is_combinator :: "('r, 'w) filter_node \<Rightarrow> bool" where
  "is_combinator f \<longleftrightarrow> ftype f \<in> set [''or'', ''and'', ''not'']"

text \<open>The body of the \<open>if\<close>: the queue after the pushes for the popped element \<open>f\<close>.\<close>

definition push_block ::
  "bool \<Rightarrow> ('r, 'w) filter_node option \<Rightarrow> ('r, 'w) filter_node option list \<Rightarrow> ('r, 'w) filter_node option list"
where
  "push_block block_end f queue =
     (case f of
        None \<Rightarrow> queue
      | Some g \<Rightarrow>
          if is_combinator g
          then fold (\<lambda>gf q. appendleft (Some gf) q) (filters g)
                 (if block_end then appendleft None queue else queue)
          else queue)"

partial_function (option) iter_loop ::
  "bool \<Rightarrow> ('r, 'w) filter_node option list \<Rightarrow> ('r, 'w) filter_node option list option"
where
  "iter_loop block_end queue =
     (case queue of
        [] \<Rightarrow> Some []
      | f # rest \<Rightarrow>
          Option.bind (iter_loop block_end (push_block block_end f rest))
            (\<lambda>ys. Some (f # ys)))"

definition iter_filters ::
  "('r, 'w) filter_node list \<Rightarrow> bool \<Rightarrow> ('r, 'w) filter_node option list option"
where
  "iter_filters fs block_end = iter_loop block_end (map Some fs)"

subsection \<open>The linearization as the specification words it\<close>

text \<open>
  Each combinator, then its children last-declared first, each child expanded in full
  before the earlier-declared siblings, then the sentinel when block ends are asked
  for. A leaf is itself.
\<close>

fun linearize_node :: "bool \<Rightarrow> ('r, 'w) filter_node \<Rightarrow> ('r, 'w) filter_node option list" where
  "linearize_node block_end (Filter t cs p) =
     (if t \<in> set [''or'', ''and'', ''not'']
      then Some (Filter t cs p) # concat (map (linearize_node block_end) (rev cs))
             @ (if block_end then [None] else [])
      else [Some (Filter t cs p)])"

definition linearize :: "bool \<Rightarrow> ('r, 'w) filter_node list \<Rightarrow> ('r, 'w) filter_node option list" where
  "linearize block_end fs = concat (map (linearize_node block_end) fs)"

text \<open>The same on a queue, where a sentinel already queued is yielded as it is.\<close>

fun linearize_entry :: "bool \<Rightarrow> ('r, 'w) filter_node option \<Rightarrow> ('r, 'w) filter_node option list" where
  "linearize_entry block_end None = [None]"
| "linearize_entry block_end (Some f) = linearize_node block_end f"

subsection \<open>A measure of the work left in the queue\<close>

fun weight :: "('r, 'w) filter_node \<Rightarrow> nat" where
  "weight (Filter t cs p) = 2 + sum_list (map weight cs)"

fun entry_weight :: "('r, 'w) filter_node option \<Rightarrow> nat" where
  "entry_weight None = 1"
| "entry_weight (Some f) = weight f"

definition queue_weight :: "('r, 'w) filter_node option list \<Rightarrow> nat" where
  "queue_weight queue = sum_list (map entry_weight queue)"

section \<open>The resource manager\<close>

text \<open>
  What the methods below read of \<open>self\<close>: \<open>self.ctx.policy.provider_name\<close>,
  \<open>self.data\<close>, \<open>self.filters\<close> (set by the constructor only when the class has a filter
  registry, so the attribute may be missing), \<open>self.source_type\<close> and
  \<open>self.resource_type.not_found_exceptions\<close>.
\<close>

record policy =
  provider_name :: string

record ctx =
  policy :: policy

record type_info =
  not_found_exceptions :: "string list"

record ('r, 'w) resource_manager =
  self_ctx :: ctx
  self_data :: pydict
  self_filters :: "('r, 'w) filter_node list option"
  source_type :: string
  resource_type :: type_info

section \<open>get_resource_manager\<close>

text \<open>
  A resource class of a provider: \<open>klass.get_model()\<close> is its meta-model, whose
  \<open>config_type\<close> attribute may be missing (\<open>None\<close> here) or hold any value. Calling the
  class, \<open>klass(ctx, data)\<close>, is external code; the handler it builds is recorded as the
  class with the two arguments it was given.
\<close>

record model =
  config_type :: "pyval option"

record klass =
  class_name :: string
  get_model :: model

datatype handler = Handler klass ctx pydict

text \<open>\<open>getattr(m, 'config_type', None)\<close>\<close>

definition getattr_config_type :: "model \<Rightarrow> pyval" where
  "getattr_config_type m = (case config_type m of None \<Rightarrow> VNone | Some v \<Rightarrow> v)"

text \<open>
  The registry \<open>clouds\<close> of providers, each with its registry \<open>resources\<close> of classes by
  resource name. \<open>provider_resources.get(name)\<close> is \<open>None\<close> for an unknown name. The
  registry class is not part of this module: what \<open>clouds[provider_name].resources\<close>
  raises for an unknown provider is one exception, \<open>LookupError\<close> here, with the
  provider name.
\<close>

record provider =
  resources :: "string \<rightharpoonup> klass"

type_synonym clouds = "string \<rightharpoonup> provider"

text \<open>
  \<open>load_resources\<close> is imported from another module: it takes the qualified names to
  load, may register classes (a new state of \<open>clouds\<close>) and may raise. It is a parameter
  of the model.
\<close>

type_synonym loader = "string list \<Rightarrow> clouds \<Rightarrow> exn option \<times> clouds"

text \<open>\<open>s.split('.', 1)\<close> for a string \<open>s\<close> that contains a dot.\<close>

definition split_dot :: "string \<Rightarrow> string \<times> string" where
  "split_dot s =
     (takeWhile (\<lambda>c. c \<noteq> CHR ''.'') s, tl (dropWhile (\<lambda>c. c \<noteq> CHR ''.'') s))"

text \<open>
  \<^verbatim>\<open>
  if '.' in resource_type:
      provider_name, resource_type = resource_type.split('.', 1)
  else:
      provider_name = self.ctx.policy.provider_name
  \<close>
\<close>

definition resolve_names :: "('r, 'w) resource_manager \<Rightarrow> string \<Rightarrow> string \<times> string" where
  "resolve_names self rtype =
     (if CHR ''.'' \<in> set rtype then split_dot rtype
      else (provider_name (policy (self_ctx self)), rtype))"

text \<open>
  \<^verbatim>\<open>
  load_resources(('%s.%s' % (provider_name, resource_type),))
  provider_resources = clouds[provider_name].resources
  klass = provider_resources.get(resource_type)
  if klass is None:
      raise ValueError(resource_type)

  # if we're already querying via config carry it forward
  if not data and self.source_type == 'config' and getattr(
          klass.get_model(), 'config_type', None):
      return klass(self.ctx, {'source': self.source_type})
  return klass(self.ctx, data or {})
  \<close>
  The result is the handler or the exception, with the state of \<open>clouds\<close> after the call.
\<close>

definition data_or_empty :: "pydict option \<Rightarrow> pydict" where
  "data_or_empty dat = (case dat of None \<Rightarrow> [] | Some d \<Rightarrow> if d \<noteq> [] then d else [])"

definition get_resource_manager ::
  "loader \<Rightarrow> ('r, 'w) resource_manager \<Rightarrow> string \<Rightarrow> pydict option \<Rightarrow> clouds
     \<Rightarrow> (exn + handler) \<times> clouds"
where
  "get_resource_manager load_resources self rtype dat clouds =
     (case resolve_names self rtype of
        (pname, rname) \<Rightarrow>
          (case load_resources [pname @ ''.'' @ rname] clouds of
             (Some e, clouds') \<Rightarrow> (Inl e, clouds')
           | (None, clouds') \<Rightarrow>
               (case clouds' pname of
                  None \<Rightarrow> (Inl (LookupError pname), clouds')
                | Some prov \<Rightarrow>
                    (case resources prov rname of
                       None \<Rightarrow> (Inl (ValueError rname), clouds')
                     | Some k \<Rightarrow>
                         if \<not> truthy_dict dat \<and> source_type self = ''config''
                            \<and> truthy (getattr_config_type (get_model k))
                         then (Inr (Handler k (self_ctx self)
                                      [(''source'', VStr (source_type self))]), clouds')
                         else (Inr (Handler k (self_ctx self) (data_or_empty dat)),
                               clouds')))))"

section \<open>filter_resources\<close>

text \<open>
  What a run of \<open>filter_resources\<close> leaves behind: the world the filters act on, the
  tracing spans opened (\<open>self.ctx.tracer.subsegment(name)\<close>) and the log calls made.
\<close>

datatype ('r, 'w) log_record =
    Info_filtering "('r, 'w) filter_node list"
  | Debug_applied "('r, 'w) filter_node" nat nat
  | Debug_filtered nat nat

record ('r, 'w) run_state =
  world :: 'w
  spans :: "string list"
  logs :: "('r, 'w) log_record list"

text \<open>\<open>event and event.get('debug', False)\<close>\<close>

definition debug :: "pydict option \<Rightarrow> bool" where
  "debug event =
     (case event of
        None \<Rightarrow> False
      | Some d \<Rightarrow> d \<noteq> [] \<and> (case map_of d ''debug'' of None \<Rightarrow> False | Some v \<Rightarrow> truthy v))"

text \<open>
  \<^verbatim>\<open>
  for f in self.filters:
      if not resources:
          break
      rcount = len(resources)

      with self.ctx.tracer.subsegment("filter:%s" % f.type):
          resources = f.process(resources, event)

      if event and event.get('debug', False):
          self.log.debug(
              "applied filter %s %d->%d", f, rcount, len(resources))
  \<close>
  An exception of \<open>f.process\<close> leaves the loop and the method at once.
\<close>

fun filter_loop ::
  "('r, 'w) filter_node list \<Rightarrow> 'r list \<Rightarrow> pydict option \<Rightarrow> ('r, 'w) run_state
     \<Rightarrow> (exn + 'r list) \<times> ('r, 'w) run_state"
where
  "filter_loop [] rs event st = (Inr rs, st)"
| "filter_loop (f # fs) rs event st =
     (if rs = [] then (Inr rs, st)
      else
        (case process f rs event (world st) of
           (Inl e, w) \<Rightarrow>
             (Inl e, st\<lparr>world := w, spans := spans st @ [''filter:'' @ ftype f]\<rparr>)
         | (Inr rs', w) \<Rightarrow>
             filter_loop fs rs' event
               (st\<lparr>world := w,
                   spans := spans st @ [''filter:'' @ ftype f],
                   logs := (if debug event
                            then logs st @ [Debug_applied f (length rs) (length rs')]
                            else logs st)\<rparr>)))"

text \<open>
  \<^verbatim>\<open>
  def filter_resources(self, resources, event=None):
      original = len(resources)
      if event and event.get('debug', False):
          self.log.info(
              "Filtering resources with %s", self.filters)
      for f in self.filters:
          ...
      self.log.debug("Filtered from %d to %d %s" % (
          original, len(resources), self.__class__.__name__.lower()))
      return resources
  \<close>
  A handler without the attribute \<open>filters\<close> raises \<open>AttributeError\<close> where it is first
  read, before anything is logged. The last log record keeps the two counts and
  leaves the class name out.
\<close>

definition filter_resources ::
  "('r, 'w) resource_manager \<Rightarrow> 'r list \<Rightarrow> pydict option \<Rightarrow> ('r, 'w) run_state
     \<Rightarrow> (exn + 'r list) \<times> ('r, 'w) run_state"
where
  "filter_resources self rs event st =
     (case self_filters self of
        None \<Rightarrow> (Inl (AttributeError ''filters''), st)
      | Some fs \<Rightarrow>
          (case filter_loop fs rs event
                  (if debug event then st\<lparr>logs := logs st @ [Info_filtering fs]\<rparr> else st) of
             (Inl e, st') \<Rightarrow> (Inl e, st')
           | (Inr rs', st') \<Rightarrow>
               (Inr rs', st'\<lparr>logs := logs st' @ [Debug_filtered (length rs) (length rs')]\<rparr>)))"

text \<open>A filter that narrows: what it returns is among what it was given.\<close>

definition narrowing :: "('r, 'w) filter_node \<Rightarrow> bool" where
  "narrowing f \<longleftrightarrow>
     (\<forall>rs event w rs' w'. process f rs event w = (Inr rs', w') \<longrightarrow> set rs' \<subseteq> set rs)"

text \<open>The same counting repetitions: no resource is returned more often than given.\<close>

definition narrowing_counted :: "('r, 'w) filter_node \<Rightarrow> bool" where
  "narrowing_counted f \<longleftrightarrow>
     (\<forall>rs event w rs' w'. process f rs event w = (Inr rs', w') \<longrightarrow> mset rs' \<subseteq># mset rs)"

section \<open>call_api\<close>

text \<open>
  \<^verbatim>\<open>
  def call_api(self, func, *args, ignore_not_found=True, not_found_codes=None, **kwargs):
      if not_found_codes is None:
          not_found_codes = self.resource_type.not_found_exceptions
      try:
          return func(*args, **kwargs)
      except ClientError as e:
          if not ignore_not_found or e.response['Error']['Code'] not in not_found_codes:
              raise
  \<close>
  \<open>func\<close> returns a value (\<open>None\<close> is Python's \<open>None\<close>) or raises; a method that falls off
  its end returns \<open>None\<close>.
\<close>

definition default_codes :: "('r, 'w) resource_manager \<Rightarrow> string list option \<Rightarrow> string list" where
  "default_codes self not_found_codes =
     (case not_found_codes of
        None \<Rightarrow> not_found_exceptions (resource_type self)
      | Some codes \<Rightarrow> codes)"

definition call_api ::
  "('r, 'w) resource_manager \<Rightarrow> ('a \<Rightarrow> exn + 'v option) \<Rightarrow> 'a \<Rightarrow> bool \<Rightarrow> string list option
     \<Rightarrow> exn + 'v option"
where
  "call_api self func args ignore_not_found not_found_codes =
     (case func args of
        Inr v \<Rightarrow> Inr v
      | Inl (ClientError code) \<Rightarrow>
          if \<not> ignore_not_found \<or> code \<notin> set (default_codes self not_found_codes)
          then Inl (ClientError code)
          else Inr None
      | Inl e \<Rightarrow> Inl e)"

section \<open>Example inputs\<close>

text \<open>Leaf filters over resources that are numbers, in a world that counts process calls.\<close>

definition keep_all :: "nat list \<Rightarrow> pydict option \<Rightarrow> nat \<Rightarrow> (exn + nat list) \<times> nat" where
  "keep_all rs event w = (Inr rs, Suc w)"

definition keep_even :: "nat list \<Rightarrow> pydict option \<Rightarrow> nat \<Rightarrow> (exn + nat list) \<times> nat" where
  "keep_even rs event w = (Inr (filter even rs), Suc w)"

definition keep_none :: "nat list \<Rightarrow> pydict option \<Rightarrow> nat \<Rightarrow> (exn + nat list) \<times> nat" where
  "keep_none rs event w = (Inr [], Suc w)"

definition leaf :: "string \<Rightarrow> (nat, nat) filter_node" where
  "leaf t = Filter t [] keep_all"

definition start :: "(nat, nat) run_state" where
  "start = \<lparr>world = 0, spans = [], logs = []\<rparr>"

definition manager :: "(nat, nat) filter_node list \<Rightarrow> (nat, nat) resource_manager" where
  "manager fs =
     \<lparr>self_ctx = \<lparr>policy = \<lparr>provider_name = ''aws''\<rparr>\<rparr>, self_data = [],
      self_filters = Some fs, source_type = ''describe'',
      resource_type = \<lparr>not_found_exceptions = [''NoSuchEntity'']\<rparr>\<rparr>"

definition describe :: "string \<Rightarrow> exn + nat option" where
  "describe name =
     (if name = ''ok'' then Inr (Some 7)
      else if name = ''gone'' then Inl (ClientError ''NoSuchEntity'')
      else if name = ''denied'' then Inl (ClientError ''AccessDenied'')
      else Inl (OtherError ''timeout''))"

definition config_manager :: "(nat, nat) resource_manager" where
  "config_manager = (manager [])\<lparr>source_type := ''config''\<rparr>"

definition dotted_manager :: "(nat, nat) resource_manager" where
  "dotted_manager = (manager [])\<lparr>self_ctx := \<lparr>policy = \<lparr>provider_name = ''a.b''\<rparr>\<rparr>\<rparr>"

definition ec2 :: klass where
  "ec2 = \<lparr>class_name = ''EC2'', get_model = \<lparr>config_type = Some (VStr ''AWS::EC2::Instance'')\<rparr>\<rparr>"

definition registry :: clouds where
  "registry = [''aws'' \<mapsto> \<lparr>resources = Map.empty\<rparr>]"

definition dotted_registry :: clouds where
  "dotted_registry =
     [''a.b'' \<mapsto> \<lparr>resources = [''c'' \<mapsto> ec2]\<rparr>, ''a'' \<mapsto> \<lparr>resources = Map.empty\<rparr>]"

definition no_load :: loader where
  "no_load names clouds = (None, clouds)"

definition lazy_load :: loader where
  "lazy_load names clouds =
     (None, if ''aws.ec2'' \<in> set names
            then clouds(''aws'' \<mapsto> \<lparr>resources = [''ec2'' \<mapsto> ec2]\<rparr>) else clouds)"

section \<open>The linearization is the loop\<close>

lemma fold_appendleft:
  "fold (\<lambda>gf q. appendleft (Some gf) q) cs queue = rev (map Some cs) @ queue"
  by (induction cs arbitrary: queue) (simp_all add: appendleft_def)

lemma push_block_None: "push_block b None queue = queue"
  by (simp add: push_block_def)

lemma push_block_leaf: "\<not> is_combinator g \<Longrightarrow> push_block b (Some g) queue = queue"
  by (simp add: push_block_def)

lemma push_block_combinator:
  "is_combinator g \<Longrightarrow>
     push_block b (Some g) queue =
       rev (map Some (filters g)) @ (if b then [None] else []) @ queue"
  by (simp add: push_block_def fold_appendleft appendleft_def)

text \<open>Every turn of the loop leaves less work in the queue.\<close>

lemma queue_weight_push_block:
  "queue_weight (push_block b f queue) < queue_weight (f # queue)"
proof (cases f)
  case None
  then show ?thesis by (simp add: push_block_None queue_weight_def)
next
  case (Some g)
  obtain t cs p where g: "g = Filter t cs p" by (cases g)
  have rv: "sum_list (map entry_weight (rev (map Some cs))) = sum_list (map weight cs)"
    by (simp add: rev_map [symmetric] o_def del: rev_map)
  show ?thesis
  proof (cases "is_combinator g")
    case True
    then show ?thesis
      using Some g rv by (simp add: push_block_combinator queue_weight_def)
  next
    case False
    then show ?thesis
      using Some g by (simp add: push_block_leaf queue_weight_def)
  qed
qed

text \<open>What the specification says of the front element is what one turn yields.\<close>

lemma linearize_push_block:
  "concat (map (linearize_entry b) (f # queue)) =
     f # concat (map (linearize_entry b) (push_block b f queue))"
proof (cases f)
  case None
  then show ?thesis by (simp add: push_block_None)
next
  case (Some g)
  obtain t cs p where g: "g = Filter t cs p" by (cases g)
  have rv: "map (linearize_entry b) (rev (map Some cs)) = map (linearize_node b) (rev cs)"
    by (simp add: rev_map)
  show ?thesis
  proof (cases "is_combinator g")
    case True
    then show ?thesis
      using Some g by (simp add: push_block_combinator rv is_combinator_def)
  next
    case False
    then show ?thesis
      using Some g by (simp add: push_block_leaf is_combinator_def)
  qed
qed

lemma iter_loop_linearize:
  "iter_loop b queue = Some (concat (map (linearize_entry b) queue))"
proof (induction "queue_weight queue" arbitrary: queue rule: less_induct)
  case less
  show ?case
  proof (cases queue)
    case Nil
    then show ?thesis by (simp add: iter_loop.simps)
  next
    case (Cons f rest)
    have "iter_loop b (push_block b f rest) =
            Some (concat (map (linearize_entry b) (push_block b f rest)))"
      using less [of "push_block b f rest"] queue_weight_push_block [of b f rest] Cons
      by simp
    then show ?thesis
      using Cons linearize_push_block [of b f rest]
      by (subst iter_loop.simps) simp
  qed
qed

lemma linearize_entries: "concat (map (linearize_entry b) (map Some fs)) = linearize b fs"
  by (simp add: linearize_def o_def)

lemma iter_loop_yields: "iter_filters fs b = Some (linearize b fs)"
  by (simp only: iter_filters_def iter_loop_linearize linearize_entries)

lemma linearize_node_leaf: "\<not> is_combinator f \<Longrightarrow> linearize_node b f = [Some f]"
  by (cases f) (simp add: is_combinator_def)

text \<open>
  Claim C1. For every filter list and both values of \<open>block_end\<close>, \<open>iter_filters\<close> yields
  the linearization of the specification: each combinator, then its children from the
  last declared to the first, each expanded in full before the siblings declared
  before it, then (with \<open>block_end\<close>) the sentinel \<open>None\<close>, which no filter is. In
  particular, for leaves \<open>f1\<close> and \<open>f2\<close>, \<open>[and(f1, f2)]\<close> yields \<open>and, f2, f1, None\<close> with
  \<open>block_end\<close> and \<open>and, f2, f1\<close> without it.
\<close>

theorem iter_filters_linearization:
  "iter_filters fs block_end = Some (linearize block_end fs)
   \<and> (\<not> is_combinator f1 \<and> \<not> is_combinator f2 \<longrightarrow>
        iter_filters [Filter ''and'' [f1, f2] p] True =
          Some [Some (Filter ''and'' [f1, f2] p), Some f2, Some f1, None]
        \<and> iter_filters [Filter ''and'' [f1, f2] p] False =
          Some [Some (Filter ''and'' [f1, f2] p), Some f2, Some f1])"
proof -
  have "linearize b [Filter ''and'' [f1, f2] p] =
          Some (Filter ''and'' [f1, f2] p) # Some f2 # Some f1 # (if b then [None] else [])"
    if "\<not> is_combinator f1" and "\<not> is_combinator f2" for b
    using that by (simp add: linearize_def linearize_node_leaf)
  then show ?thesis
    by (simp add: iter_loop_yields)
qed

theorem iter_filters_linearization_witness:
  "iter_filters
     [Filter ''and'' [Filter ''or'' [leaf ''a'', leaf ''b''] keep_all, leaf ''c''] keep_all,
      leaf ''d''] True =
     Some [Some (Filter ''and'' [Filter ''or'' [leaf ''a'', leaf ''b''] keep_all, leaf ''c''] keep_all),
           Some (leaf ''c''),
           Some (Filter ''or'' [leaf ''a'', leaf ''b''] keep_all),
           Some (leaf ''b''), Some (leaf ''a''), None, None,
           Some (leaf ''d'')]
   \<and> \<not> is_combinator (leaf ''value'') \<and> \<not> is_combinator (leaf ''tag'')
   \<and> iter_filters [Filter ''and'' [leaf ''value'', leaf ''tag''] keep_none] True =
       Some [Some (Filter ''and'' [leaf ''value'', leaf ''tag''] keep_none),
             Some (leaf ''tag''), Some (leaf ''value''), None]
   \<and> iter_filters [Filter ''and'' [leaf ''value'', leaf ''tag''] keep_none] False =
       Some [Some (Filter ''and'' [leaf ''value'', leaf ''tag''] keep_none),
             Some (leaf ''tag''), Some (leaf ''value'')]"
  using iter_filters_linearization
          [of "[Filter ''and'' [Filter ''or'' [leaf ''a'', leaf ''b''] keep_all, leaf ''c''] keep_all,
                leaf ''d'']" True "leaf ''value''" "leaf ''tag''" keep_none]
  by (simp add: linearize_def leaf_def is_combinator_def)

text \<open>
  Claim C9. A filter tree is a value of the datatype, hence finite and without a
  combinator inside itself; on every list of such trees, with and without block ends,
  the loop of \<open>iter_filters\<close> ends and the sequence it yields is a finite list.
\<close>

theorem iter_filters_terminates:
  "\<exists>ys. iter_filters (fs :: ('r, 'w) filter_node list) block_end = Some ys"
proof -
  have "\<exists>ys. iter_loop block_end queue = Some ys"
    for queue :: "('r, 'w) filter_node option list"
  proof (induction "queue_weight queue" arbitrary: queue rule: less_induct)
    case less
    show ?case
    proof (cases queue)
      case Nil
      then show ?thesis by (simp add: iter_loop.simps)
    next
      case (Cons f rest)
      have "queue_weight (push_block block_end f rest) < queue_weight queue"
        using queue_weight_push_block [of block_end f rest] Cons by simp
      then obtain ys where "iter_loop block_end (push_block block_end f rest) = Some ys"
        using less [of "push_block block_end f rest"] by blast
      then show ?thesis
        using Cons by (subst iter_loop.simps) simp
    qed
  qed
  then show ?thesis by (simp add: iter_filters_def)
qed

section \<open>The filter pipeline\<close>

lemma filter_loop_empty: "filter_loop fs [] event st = (Inr [], st)"
  by (cases fs) simp_all

lemma filter_loop_append:
  "filter_loop fs1 rs event st = (Inr rs', st') \<Longrightarrow>
     filter_loop (fs1 @ fs2) rs event st = filter_loop fs2 rs' event st'"
proof (induction fs1 arbitrary: rs st)
  case Nil
  then show ?case by simp
next
  case (Cons f fs1)
  show ?case
  proof (cases "rs = []")
    case True
    with Cons.prems show ?thesis by (simp add: filter_loop_empty)
  next
    case False
    with Cons show ?thesis
      by (auto split: prod.splits sum.splits)
  qed
qed

text \<open>The result, the world and the spans of the loop do not depend on the log.\<close>

lemma filter_loop_logs:
  "world st = world t \<Longrightarrow> spans st = spans t \<Longrightarrow>
     fst (filter_loop fs rs event st) = fst (filter_loop fs rs event t)
     \<and> world (snd (filter_loop fs rs event st)) = world (snd (filter_loop fs rs event t))
     \<and> spans (snd (filter_loop fs rs event st)) = spans (snd (filter_loop fs rs event t))"
proof (induction fs arbitrary: rs st t)
  case Nil
  then show ?case by simp
next
  case (Cons f fs)
  show ?case
  proof (cases "rs = []")
    case True
    with Cons.prems show ?thesis by simp
  next
    case False
    show ?thesis
    proof (cases "process f rs event (world t)")
      case (Pair res w)
      show ?thesis
      proof (cases res)
        case (Inl e)
        with Pair False Cons.prems show ?thesis by simp
      next
        case (Inr rs')
        with Pair False Cons.prems Cons.IH show ?thesis by simp
      qed
    qed
  qed
qed

lemma filter_loop_preserves:
  assumes refl: "\<And>xs. P xs xs"
    and trans: "\<And>xs ys zs. P xs ys \<Longrightarrow> P ys zs \<Longrightarrow> P xs zs"
    and step: "\<And>f rs ev w rs' w'. f \<in> set fs \<Longrightarrow> process f rs ev w = (Inr rs', w') \<Longrightarrow> P rs' rs"
    and run: "filter_loop fs rs event st = (Inr rs', st')"
  shows "P rs' rs"
  using step run
proof (induction fs arbitrary: rs st)
  case Nil
  then show ?case using refl by simp
next
  case (Cons f fs)
  show ?case
  proof (cases "rs = []")
    case True
    with Cons.prems(2) show ?thesis using refl by simp
  next
    case False
    obtain res w where pr: "process f rs event (world st) = (res, w)"
      by (cases "process f rs event (world st)")
    show ?thesis
    proof (cases res)
      case (Inl e)
      with pr False Cons.prems(2) show ?thesis by simp
    next
      case (Inr mid)
      have "P mid rs" using Cons.prems(1) [of f rs event "world st" mid w] pr Inr by simp
      moreover obtain st2 where run2: "filter_loop fs mid event st2 = (Inr rs', st')"
        using Cons.prems(2) pr Inr False by simp
      have "P rs' mid"
      proof (rule Cons.IH [OF _ run2])
        fix g xs ev v xs' v'
        assume "g \<in> set fs" and "process g xs ev v = (Inr xs', v')"
        then show "P xs' xs" using Cons.prems(1) [of g xs ev v xs' v'] by simp
      qed
      ultimately show ?thesis using trans by blast
    qed
  qed
qed


lemma filter_loop_subset:
  assumes "\<forall>f\<in>set fs. narrowing f" and "filter_loop fs rs event st = (Inr rs', st')"
  shows "set rs' \<subseteq> set rs"
proof (rule filter_loop_preserves [where P = "\<lambda>xs ys. set xs \<subseteq> set ys", OF _ _ _ assms(2)])
  fix f xs ev w xs' w'
  assume "f \<in> set fs" and "process f xs ev w = (Inr xs', w')"
  with assms(1) show "set xs' \<subseteq> set xs" unfolding narrowing_def by blast
qed auto

lemma filter_loop_subset_counted:
  assumes "\<forall>f\<in>set fs. narrowing_counted f" and "filter_loop fs rs event st = (Inr rs', st')"
  shows "mset rs' \<subseteq># mset rs"
proof (rule filter_loop_preserves [where P = "\<lambda>xs ys. mset xs \<subseteq># mset ys", OF _ _ _ assms(2)])
  fix f xs ev w xs' w'
  assume "f \<in> set fs" and "process f xs ev w = (Inr xs', w')"
  with assms(1) show "mset xs' \<subseteq># mset xs" unfolding narrowing_counted_def by blast
qed auto

lemma filter_resources_Inr:
  "filter_resources self rs event st = (Inr rs', st') \<Longrightarrow> self_filters self = Some fs \<Longrightarrow>
     \<exists>st0 st1. filter_loop fs rs event st0 = (Inr rs', st1)"
  by (auto simp: filter_resources_def split: prod.splits sum.splits)


lemma filter_resources_loop:
  assumes "self_filters self = Some fs"
  shows "fst (filter_resources self rs event st) = fst (filter_loop fs rs event st)
       \<and> world (snd (filter_resources self rs event st)) = world (snd (filter_loop fs rs event st))
       \<and> spans (snd (filter_resources self rs event st)) = spans (snd (filter_loop fs rs event st))"
proof -
  let ?st0 = "if debug event then st\<lparr>logs := logs st @ [Info_filtering fs]\<rparr> else st"
  have same: "fst (filter_loop fs rs event ?st0) = fst (filter_loop fs rs event st)
       \<and> world (snd (filter_loop fs rs event ?st0)) = world (snd (filter_loop fs rs event st))
       \<and> spans (snd (filter_loop fs rs event ?st0)) = spans (snd (filter_loop fs rs event st))"
    by (rule filter_loop_logs) simp_all
  obtain res st' where run: "filter_loop fs rs event ?st0 = (res, st')"
    by (cases "filter_loop fs rs event ?st0")
  have "fst (filter_resources self rs event st) = res
       \<and> world (snd (filter_resources self rs event st)) = world st'
       \<and> spans (snd (filter_resources self rs event st)) = spans st'"
    using assms run by (cases res) (simp_all add: filter_resources_def)
  with same run show ?thesis by simp
qed

text \<open>
  Claim C5. When every filter of the chain narrows, the resources \<open>filter_resources\<close>
  returns are a subset of the resources it was given and no more numerous; read on
  sets with their cardinality, and read on lists with repetitions and their length.
\<close>

theorem filter_resources_subset:
  assumes "self_filters self = Some fs"
    and "filter_resources self rs event st = (Inr rs', st')"
  shows "((\<forall>f\<in>set fs. narrowing f) \<longrightarrow> set rs' \<subseteq> set rs \<and> card (set rs') \<le> card (set rs))
       \<and> ((\<forall>f\<in>set fs. narrowing_counted f) \<longrightarrow> mset rs' \<subseteq># mset rs \<and> length rs' \<le> length rs)"
proof -
  obtain st0 st1 where run: "filter_loop fs rs event st0 = (Inr rs', st1)"
    using filter_resources_Inr [OF assms(2) assms(1)] by blast
  have "set rs' \<subseteq> set rs \<and> card (set rs') \<le> card (set rs)" if "\<forall>f\<in>set fs. narrowing f"
  proof -
    have "set rs' \<subseteq> set rs" using filter_loop_subset [OF that run] .
    then show ?thesis by (simp add: card_mono)
  qed
  moreover have "mset rs' \<subseteq># mset rs \<and> length rs' \<le> length rs"
    if "\<forall>f\<in>set fs. narrowing_counted f"
  proof -
    have sub: "mset rs' \<subseteq># mset rs" using filter_loop_subset_counted [OF that run] .
    then have "size (mset rs') \<le> size (mset rs)" by (rule size_mset_mono)
    with sub show ?thesis by simp
  qed
  ultimately show ?thesis by blast
qed

theorem filter_resources_subset_witness:
  "self_filters (manager [Filter ''even'' [] keep_even, Filter ''value'' [] keep_all]) =
     Some [Filter ''even'' [] keep_even, Filter ''value'' [] keep_all]
   \<and> filter_resources (manager [Filter ''even'' [] keep_even, Filter ''value'' [] keep_all])
        [1, 2, 3, 4] None start =
       (Inr [2, 4],
        \<lparr>world = 2, spans = [''filter:even'', ''filter:value''], logs = [Debug_filtered 4 2]\<rparr>)
   \<and> narrowing (Filter ''even'' [] keep_even) \<and> narrowing (Filter ''value'' [] keep_all)
   \<and> narrowing_counted (Filter ''even'' [] keep_even)
   \<and> narrowing_counted (Filter ''value'' [] keep_all)
   \<and> set [2, 4] \<subseteq> set [1, 2, 3, 4::nat] \<and> card (set [2, 4::nat]) \<le> card (set [1, 2, 3, 4::nat])
   \<and> mset [2, 4] \<subseteq># mset [1, 2, 3, 4::nat] \<and> length [2, 4::nat] \<le> length [1, 2, 3, 4::nat]"
proof -
  let ?fs = "[Filter ''even'' [] keep_even, Filter ''value'' [] keep_all]"
  have chain: "self_filters (manager ?fs) = Some ?fs"
    by (simp add: manager_def)
  have run: "filter_resources (manager ?fs) [1, 2, 3, 4] None start =
       (Inr [2, 4],
        \<lparr>world = 2, spans = [''filter:even'', ''filter:value''], logs = [Debug_filtered 4 2]\<rparr>)"
    by (simp add: manager_def filter_resources_def keep_even_def keep_all_def start_def debug_def)
  have n1: "\<forall>f\<in>set ?fs. narrowing f"
    by (auto simp: narrowing_def keep_even_def keep_all_def)
  have n2: "\<forall>f\<in>set ?fs. narrowing_counted f"
    by (auto simp: narrowing_counted_def keep_even_def keep_all_def)
  show ?thesis
    using filter_resources_subset [OF chain run] chain run n1 n2 by simp
qed

text \<open>
  Claim C6. If the filters up to some point of the chain leave no resource, the filters
  after that point are not called: the call returns the empty list, and the world and
  the tracing spans are those the run of the chain cut at that point leaves, whatever
  the later filters would do. With no resource at the start no filter is called at
  all: the world and the spans are unchanged.
\<close>

theorem filter_resources_short_circuit:
  assumes "self_filters self = Some (fs1 @ fs2)"
  shows "(fst (filter_resources (self\<lparr>self_filters := Some fs1\<rparr>) rs event st) = Inr [] \<longrightarrow>
            fst (filter_resources self rs event st) = Inr []
          \<and> world (snd (filter_resources self rs event st)) =
              world (snd (filter_resources (self\<lparr>self_filters := Some fs1\<rparr>) rs event st))
          \<and> spans (snd (filter_resources self rs event st)) =
              spans (snd (filter_resources (self\<lparr>self_filters := Some fs1\<rparr>) rs event st)))
       \<and> fst (filter_resources self [] event st) = Inr []
       \<and> world (snd (filter_resources self [] event st)) = world st
       \<and> spans (snd (filter_resources self [] event st)) = spans st"
proof -
  let ?pre = "self\<lparr>self_filters := Some fs1\<rparr>"
  have pre: "self_filters ?pre = Some fs1" by simp
  have "fst (filter_loop (fs1 @ fs2) rs event st) = Inr []
      \<and> snd (filter_loop (fs1 @ fs2) rs event st) = snd (filter_loop fs1 rs event st)"
    if "fst (filter_loop fs1 rs event st) = Inr []"
  proof -
    have "filter_loop fs1 rs event st = (Inr [], snd (filter_loop fs1 rs event st))"
      using that by (simp add: prod_eq_iff)
    then obtain st' where "filter_loop fs1 rs event st = (Inr [], st')" ..
    then show ?thesis
      using filter_loop_append [of fs1 rs event st "[]" st' fs2] by (simp add: filter_loop_empty)
  qed
  then show ?thesis
    using filter_resources_loop [OF assms] filter_resources_loop [OF pre]
    by (simp add: filter_loop_empty)
qed

theorem filter_resources_short_circuit_witness:
  "self_filters (manager ([Filter ''drop'' [] keep_none] @ [Filter ''spy'' [] keep_all])) =
     Some ([Filter ''drop'' [] keep_none] @ [Filter ''spy'' [] keep_all])
   \<and> fst (filter_resources
            (manager ([Filter ''drop'' [] keep_none] @ [Filter ''spy'' [] keep_all])
               \<lparr>self_filters := Some [Filter ''drop'' [] keep_none]\<rparr>) [1, 2, 3] None start) = Inr []
   \<and> fst (filter_resources
            (manager ([Filter ''drop'' [] keep_none] @ [Filter ''spy'' [] keep_all])) [1, 2, 3] None start)
       = Inr []
   \<and> world (snd (filter_resources
            (manager ([Filter ''drop'' [] keep_none] @ [Filter ''spy'' [] keep_all])) [1, 2, 3] None start))
       = 1
   \<and> spans (snd (filter_resources
            (manager ([Filter ''drop'' [] keep_none] @ [Filter ''spy'' [] keep_all])) [1, 2, 3] None start))
       = [''filter:drop'']
   \<and> world (snd (filter_resources
            (manager ([Filter ''drop'' [] keep_none] @ [Filter ''spy'' [] keep_all])) [] None start))
       = 0"
  using filter_resources_short_circuit
          [of "manager ([Filter ''drop'' [] keep_none] @ [Filter ''spy'' [] keep_all])"
              "[Filter ''drop'' [] keep_none]" "[Filter ''spy'' [] keep_all]" "[1, 2, 3]" None start]
  by (simp add: manager_def filter_resources_def keep_none_def start_def debug_def)

text \<open>
  Claim C7. With an empty filter chain \<open>filter_resources\<close> returns the resources it was
  given, the same list, and calls no filter: the world and the spans are unchanged.
\<close>

theorem filter_resources_identity:
  assumes "self_filters self = Some []"
  shows "fst (filter_resources self rs event st) = Inr rs
       \<and> world (snd (filter_resources self rs event st)) = world st
       \<and> spans (snd (filter_resources self rs event st)) = spans st"
  using filter_resources_loop [OF assms] by simp

theorem filter_resources_identity_witness:
  "self_filters (manager []) = Some []
   \<and> fst (filter_resources (manager []) [3, 1, 2] None start) = Inr [3, 1, 2]
   \<and> world (snd (filter_resources (manager []) [3, 1, 2] None start)) = 0
   \<and> spans (snd (filter_resources (manager []) [3, 1, 2] None start)) = []"
  using filter_resources_identity [of "manager []" "[3, 1, 2]" None start]
  by (simp add: manager_def start_def)


section \<open>Guarded API calls\<close>

text \<open>
  Claim C2. \<open>call_api\<close> returns what \<open>func\<close> returns when \<open>func\<close> does not raise. When \<open>func\<close>
  raises a \<open>ClientError\<close>, the error is swallowed and \<open>None\<close> returned if
  \<open>ignore_not_found\<close> holds and the error code is among the not-found codes, and the
  same error is raised again if \<open>ignore_not_found\<close> is false or the code is not among
  them. An exception of any other class comes out as it is. The not-found codes are
  the ones given, and without any given the ones of the resource type.
\<close>

theorem call_api_contract:
  "(func args = Inr v \<longrightarrow> call_api self func args ignore_not_found not_found_codes = Inr v)
   \<and> (func args = Inl (ClientError code) \<and> ignore_not_found
        \<and> code \<in> set (default_codes self not_found_codes) \<longrightarrow>
        call_api self func args ignore_not_found not_found_codes = Inr None)
   \<and> (func args = Inl (ClientError code)
        \<and> (\<not> ignore_not_found \<or> code \<notin> set (default_codes self not_found_codes)) \<longrightarrow>
        call_api self func args ignore_not_found not_found_codes = Inl (ClientError code))
   \<and> (func args = Inl e \<and> (\<forall>c. e \<noteq> ClientError c) \<longrightarrow>
        call_api self func args ignore_not_found not_found_codes = Inl e)
   \<and> default_codes self None = not_found_exceptions (resource_type self)
   \<and> default_codes self (Some codes) = codes"
proof -
  have "call_api self func args ignore_not_found not_found_codes = Inl e"
    if "func args = Inl e" and "\<forall>c. e \<noteq> ClientError c"
    using that by (cases e) (simp_all add: call_api_def)
  then show ?thesis
    by (simp add: call_api_def default_codes_def)
qed

theorem call_api_contract_witness:
  "describe ''ok'' = Inr (Some 7)
   \<and> call_api (manager []) describe ''ok'' True None = Inr (Some 7)
   \<and> describe ''gone'' = Inl (ClientError ''NoSuchEntity'')
   \<and> ''NoSuchEntity'' \<in> set (default_codes (manager []) None)
   \<and> call_api (manager []) describe ''gone'' True None = Inr None
   \<and> call_api (manager []) describe ''gone'' False None = Inl (ClientError ''NoSuchEntity'')
   \<and> ''NoSuchEntity'' \<notin> set (default_codes (manager []) (Some [''NotFound'']))
   \<and> call_api (manager []) describe ''gone'' True (Some [''NotFound'']) =
       Inl (ClientError ''NoSuchEntity'')
   \<and> describe ''slow'' = Inl (OtherError ''timeout'')
   \<and> call_api (manager []) describe ''slow'' True None = Inl (OtherError ''timeout'')"
  using call_api_contract [of describe "''ok''" "Some 7" "manager []" True None "''x''" "OtherError ''x''" "[]"]
    call_api_contract [of describe "''gone''" None "manager []" True None "''NoSuchEntity''" "OtherError ''x''" "[]"]
    call_api_contract [of describe "''gone''" None "manager []" False None "''NoSuchEntity''" "OtherError ''x''" "[]"]
    call_api_contract [of describe "''gone''" None "manager []" True "Some [''NotFound'']" "''NoSuchEntity''" "OtherError ''x''" "[''NotFound'']"]
    call_api_contract [of describe "''slow''" None "manager []" True None "''x''" "OtherError ''timeout''" "[]"]
  by (simp add: describe_def manager_def default_codes_def)

section \<open>Resolving a resource type\<close>

lemma split_dot_append:
  "CHR ''.'' \<notin> set p \<Longrightarrow> split_dot (p @ CHR ''.'' # r) = (p, r)"
  by (simp add: split_dot_def takeWhile_append dropWhile_append)

lemma split_dot_join:
  "CHR ''.'' \<in> set s \<Longrightarrow> split_dot s = (p, r) \<Longrightarrow> s = p @ ''.'' @ r \<and> CHR ''.'' \<notin> set p"
proof -
  assume dot: "CHR ''.'' \<in> set s" and sp: "split_dot s = (p, r)"
  let ?P = "\<lambda>c. c \<noteq> CHR ''.''"
  have ne: "dropWhile ?P s \<noteq> []" using dot by (simp add: dropWhile_eq_Nil_conv)
  have hd: "hd (dropWhile ?P s) = CHR ''.''" using hd_dropWhile [OF ne] by simp
  have "s = takeWhile ?P s @ dropWhile ?P s" by simp
  also have "dropWhile ?P s = CHR ''.'' # tl (dropWhile ?P s)"
    using ne hd by (cases "dropWhile ?P s") simp_all
  finally have "s = p @ ''.'' @ r" using sp by (simp add: split_dot_def)
  moreover have "CHR ''.'' \<notin> set p"
    using sp set_takeWhileD [of "CHR ''.''" ?P s] by (auto simp: split_dot_def)
  ultimately show ?thesis by simp
qed

lemma get_resource_manager_found:
  assumes "resolve_names self rtype = (pname, rname)"
    and "load_resources [pname @ ''.'' @ rname] clouds = (None, clouds')"
    and "clouds' pname = Some prov"
    and "resources prov rname = Some k"
  shows "get_resource_manager load_resources self rtype dat clouds =
     (Inr (Handler k (self_ctx self)
        (if \<not> truthy_dict dat \<and> source_type self = ''config''
            \<and> truthy (getattr_config_type (get_model k))
         then [(''source'', VStr ''config'')] else data_or_empty dat)), clouds')"
  using assms by (simp add: get_resource_manager_def)

lemma ec2_found:
  "resolve_names config_manager ''ec2'' = (''aws'', ''ec2'')
   \<and> resolve_names (manager []) ''ec2'' = (''aws'', ''ec2'')
   \<and> resolve_names (manager []) ''aws.ec2'' = (''aws'', ''ec2'')
   \<and> lazy_load [''aws'' @ ''.'' @ ''ec2''] registry =
        (None, registry(''aws'' \<mapsto> \<lparr>resources = [''ec2'' \<mapsto> ec2]\<rparr>))
   \<and> (registry(''aws'' \<mapsto> \<lparr>resources = [''ec2'' \<mapsto> ec2]\<rparr>)) ''aws'' =
        Some \<lparr>resources = [''ec2'' \<mapsto> ec2]\<rparr>
   \<and> resources \<lparr>resources = [''ec2'' \<mapsto> ec2]\<rparr> ''ec2'' = Some ec2
   \<and> source_type config_manager = ''config''
   \<and> source_type (manager []) = ''describe''
   \<and> truthy (getattr_config_type (get_model ec2))"
  by (simp add: resolve_names_def split_dot_def config_manager_def manager_def lazy_load_def
      ec2_def getattr_config_type_def)

text \<open>
  Claim C3, amended. When the lazy load returns, the provider is registered and the
  resource name is not in the provider's registry, \<open>get_resource_manager\<close> raises
  \<open>ValueError\<close> carrying the resource name looked up, and builds no handler. For a
  bare specifier that name is the specifier as requested; for a qualified one it is
  the part after the first dot, the specifier being provider, dot, that name.
\<close>

theorem get_resource_manager_unregistered:
  assumes "resolve_names self rtype = (pname, rname)"
    and "load_resources [pname @ ''.'' @ rname] clouds = (None, clouds')"
    and "clouds' pname = Some prov"
    and "resources prov rname = None"
  shows "get_resource_manager load_resources self rtype dat clouds =
           (Inl (ValueError rname), clouds')
       \<and> (CHR ''.'' \<notin> set rtype \<longrightarrow> rname = rtype)
       \<and> (CHR ''.'' \<in> set rtype \<longrightarrow> rtype = pname @ ''.'' @ rname \<and> CHR ''.'' \<notin> set pname)"
proof -
  have "get_resource_manager load_resources self rtype dat clouds =
           (Inl (ValueError rname), clouds')"
    using assms by (simp add: get_resource_manager_def)
  moreover have "rname = rtype" if "CHR ''.'' \<notin> set rtype"
    using that assms(1) by (simp add: resolve_names_def)
  moreover have "rtype = pname @ ''.'' @ rname \<and> CHR ''.'' \<notin> set pname" if "CHR ''.'' \<in> set rtype"
    using that assms(1) split_dot_join [of rtype pname rname] by (simp add: resolve_names_def)
  ultimately show ?thesis by blast
qed

theorem get_resource_manager_unregistered_witness:
  "resolve_names (manager []) ''aws.rds'' = (''aws'', ''rds'')
   \<and> lazy_load [''aws'' @ ''.'' @ ''rds''] registry = (None, registry)
   \<and> registry ''aws'' = Some \<lparr>resources = Map.empty\<rparr>
   \<and> resources \<lparr>resources = Map.empty\<rparr> ''rds'' = None
   \<and> get_resource_manager lazy_load (manager []) ''aws.rds'' None registry =
        (Inl (ValueError ''rds''), registry)
   \<and> resolve_names (manager []) ''rds'' = (''aws'', ''rds'')
   \<and> get_resource_manager lazy_load (manager []) ''rds'' None registry =
        (Inl (ValueError ''rds''), registry)"
proof -
  have n1: "resolve_names (manager []) ''aws.rds'' = (''aws'', ''rds'')"
    by (simp add: resolve_names_def split_dot_def)
  have n2: "resolve_names (manager []) ''rds'' = (''aws'', ''rds'')"
    by (simp add: resolve_names_def manager_def)
  have ld: "lazy_load [''aws'' @ ''.'' @ ''rds''] registry = (None, registry)"
    by (simp add: lazy_load_def)
  have pr: "registry ''aws'' = Some \<lparr>resources = Map.empty\<rparr>"
    by (simp add: registry_def)
  have un: "resources \<lparr>resources = Map.empty\<rparr> ''rds'' = None"
    by simp
  show ?thesis
    using get_resource_manager_unregistered
            [where self = "manager []" and rtype = "''aws.rds''" and pname = "''aws''"
               and rname = "''rds''" and load_resources = lazy_load and clouds = registry
               and clouds' = registry and prov = "\<lparr>resources = Map.empty\<rparr>" and dat = None]
      get_resource_manager_unregistered
            [where self = "manager []" and rtype = "''rds''" and pname = "''aws''"
               and rname = "''rds''" and load_resources = lazy_load and clouds = registry
               and clouds' = registry and prov = "\<lparr>resources = Map.empty\<rparr>" and dat = None]
      n1 n2 ld pr un
    by simp
qed

text \<open>
  On the qualified specifier \<open>aws.rds\<close>, with \<open>rds\<close> not registered under \<open>aws\<close>, the error
  carries \<open>rds\<close> and not the specifier \<open>aws.rds\<close> that was requested.
\<close>

theorem get_resource_manager_unregistered_counterexample:
  "registry ''aws'' = Some \<lparr>resources = Map.empty\<rparr>
   \<and> resources \<lparr>resources = Map.empty\<rparr> ''rds'' = None
   \<and> fst (get_resource_manager lazy_load (manager []) ''aws.rds'' None registry) =
        Inl (ValueError ''rds'')
   \<and> fst (get_resource_manager lazy_load (manager []) ''aws.rds'' None registry) \<noteq>
        Inl (ValueError ''aws.rds'')"
  by (simp add: get_resource_manager_def resolve_names_def split_dot_def lazy_load_def registry_def)

text \<open>
  Claim C4, amended. When the type resolves to a class, the handler is built from that
  class and the caller's context. Its definition is \<open>{'source': 'config'}\<close> if the
  definition given is missing or empty, the caller's \<open>source_type\<close> is \<open>config\<close> and the
  \<open>config_type\<close> of the target's model is truthy; in every other case it is the
  definition given, or the empty one when none was given.
\<close>

theorem get_resource_manager_definition:
  assumes "resolve_names self rtype = (pname, rname)"
    and "load_resources [pname @ ''.'' @ rname] clouds = (None, clouds')"
    and "clouds' pname = Some prov"
    and "resources prov rname = Some k"
  shows "get_resource_manager load_resources self rtype dat clouds =
     (Inr (Handler k (self_ctx self)
        (if (dat = None \<or> dat = Some []) \<and> source_type self = ''config''
            \<and> truthy (getattr_config_type (get_model k))
         then [(''source'', VStr ''config'')]
         else (case dat of None \<Rightarrow> [] | Some d \<Rightarrow> d))), clouds')"
  using assms
  by (cases dat) (auto simp: get_resource_manager_def data_or_empty_def)

theorem get_resource_manager_definition_witness:
  "resolve_names config_manager ''ec2'' = (''aws'', ''ec2'')
   \<and> lazy_load [''aws'' @ ''.'' @ ''ec2''] registry =
        (None, registry(''aws'' \<mapsto> \<lparr>resources = [''ec2'' \<mapsto> ec2]\<rparr>))
   \<and> (registry(''aws'' \<mapsto> \<lparr>resources = [''ec2'' \<mapsto> ec2]\<rparr>)) ''aws'' =
        Some \<lparr>resources = [''ec2'' \<mapsto> ec2]\<rparr>
   \<and> resources \<lparr>resources = [''ec2'' \<mapsto> ec2]\<rparr> ''ec2'' = Some ec2
   \<and> fst (get_resource_manager lazy_load config_manager ''ec2'' None registry) =
        Inr (Handler ec2 (self_ctx config_manager) [(''source'', VStr ''config'')])
   \<and> fst (get_resource_manager lazy_load config_manager ''ec2''
             (Some [(''filters'', VList [])]) registry) =
        Inr (Handler ec2 (self_ctx config_manager) [(''filters'', VList [])])
   \<and> fst (get_resource_manager lazy_load (manager []) ''ec2'' None registry) =
        Inr (Handler ec2 (self_ctx (manager [])) [])"
  using get_resource_manager_definition
          [where self = config_manager and rtype = "''ec2''" and pname = "''aws''"
             and rname = "''ec2''" and load_resources = lazy_load and clouds = registry
             and clouds' = "registry(''aws'' \<mapsto> \<lparr>resources = [''ec2'' \<mapsto> ec2]\<rparr>)"
             and prov = "\<lparr>resources = [''ec2'' \<mapsto> ec2]\<rparr>" and k = ec2 and dat = None]
    get_resource_manager_definition
          [where self = config_manager and rtype = "''ec2''" and pname = "''aws''"
             and rname = "''ec2''" and load_resources = lazy_load and clouds = registry
             and clouds' = "registry(''aws'' \<mapsto> \<lparr>resources = [''ec2'' \<mapsto> ec2]\<rparr>)"
             and prov = "\<lparr>resources = [''ec2'' \<mapsto> ec2]\<rparr>" and k = ec2
             and dat = "Some [(''filters'', VList [])]"]
    get_resource_manager_definition
          [where self = "manager []" and rtype = "''ec2''" and pname = "''aws''"
             and rname = "''ec2''" and load_resources = lazy_load and clouds = registry
             and clouds' = "registry(''aws'' \<mapsto> \<lparr>resources = [''ec2'' \<mapsto> ec2]\<rparr>)"
             and prov = "\<lparr>resources = [''ec2'' \<mapsto> ec2]\<rparr>" and k = ec2 and dat = None]
    ec2_found
  by simp

text \<open>
  A definition that is given and empty is not passed on as given: from a \<open>config\<close>
  caller to a target with a \<open>config_type\<close> it becomes \<open>{'source': 'config'}\<close>.
\<close>

theorem get_resource_manager_definition_counterexample:
  "source_type config_manager = ''config''
   \<and> truthy (getattr_config_type (get_model ec2))
   \<and> fst (get_resource_manager lazy_load config_manager ''ec2'' (Some []) registry) =
        Inr (Handler ec2 (self_ctx config_manager) [(''source'', VStr ''config'')])
   \<and> fst (get_resource_manager lazy_load config_manager ''ec2'' (Some []) registry) \<noteq>
        Inr (Handler ec2 (self_ctx config_manager) [])"
  using ec2_found get_resource_manager_found
          [where self = config_manager and rtype = "''ec2''" and pname = "''aws''"
             and rname = "''ec2''" and load_resources = lazy_load and clouds = registry
             and clouds' = "registry(''aws'' \<mapsto> \<lparr>resources = [''ec2'' \<mapsto> ec2]\<rparr>)"
             and prov = "\<lparr>resources = [''ec2'' \<mapsto> ec2]\<rparr>" and k = ec2 and dat = "Some []"]
  by simp

text \<open>
  Claim C8, amended. For a bare specifier and a policy provider name without a dot,
  the specifier qualified with that provider resolves to the same provider and
  resource names, hence to the same load, the same lookups and the same result, for
  every loader, registry state and definition.
\<close>

theorem get_resource_manager_qualified:
  assumes "CHR ''.'' \<notin> set rtype"
    and "CHR ''.'' \<notin> set (provider_name (policy (self_ctx self)))"
  shows "resolve_names self (provider_name (policy (self_ctx self)) @ ''.'' @ rtype) =
           resolve_names self rtype
       \<and> get_resource_manager load_resources self
           (provider_name (policy (self_ctx self)) @ ''.'' @ rtype) dat clouds =
         get_resource_manager load_resources self rtype dat clouds"
proof -
  have "resolve_names self (provider_name (policy (self_ctx self)) @ ''.'' @ rtype) =
          resolve_names self rtype"
    using assms by (simp add: resolve_names_def split_dot_append)
  then show ?thesis by (simp add: get_resource_manager_def)
qed

theorem get_resource_manager_qualified_witness:
  "CHR ''.'' \<notin> set ''ec2''
   \<and> provider_name (policy (self_ctx (manager []))) = ''aws''
   \<and> CHR ''.'' \<notin> set (provider_name (policy (self_ctx (manager []))))
   \<and> get_resource_manager lazy_load (manager []) ''aws.ec2'' (Some [(''filters'', VList [])]) registry =
       get_resource_manager lazy_load (manager []) ''ec2'' (Some [(''filters'', VList [])]) registry
   \<and> get_resource_manager lazy_load (manager []) ''ec2'' (Some [(''filters'', VList [])]) registry =
       (Inr (Handler ec2 (self_ctx (manager [])) [(''filters'', VList [])]),
        registry(''aws'' \<mapsto> \<lparr>resources = [''ec2'' \<mapsto> ec2]\<rparr>))"
proof -
  have p: "provider_name (policy (self_ctx (manager []))) = ''aws''"
    by (simp add: manager_def)
  have run: "get_resource_manager lazy_load (manager []) ''ec2'' (Some [(''filters'', VList [])]) registry =
       (Inr (Handler ec2 (self_ctx (manager [])) [(''filters'', VList [])]),
        registry(''aws'' \<mapsto> \<lparr>resources = [''ec2'' \<mapsto> ec2]\<rparr>))"
    using ec2_found get_resource_manager_found
          [where self = "manager []" and rtype = "''ec2''" and pname = "''aws''"
             and rname = "''ec2''" and load_resources = lazy_load and clouds = registry
             and clouds' = "registry(''aws'' \<mapsto> \<lparr>resources = [''ec2'' \<mapsto> ec2]\<rparr>)"
             and prov = "\<lparr>resources = [''ec2'' \<mapsto> ec2]\<rparr>" and k = ec2
             and dat = "Some [(''filters'', VList [])]"]
    by (simp add: data_or_empty_def)
  show ?thesis
    using get_resource_manager_qualified
            [of "''ec2''" "manager []" lazy_load "Some [(''filters'', VList [])]" registry] p run
    by simp
qed

text \<open>
  With the policy provider \<open>a.b\<close> the bare \<open>c\<close> is looked up under \<open>a.b\<close> and found, while
  \<open>a.b.c\<close> is split at its first dot and \<open>b.c\<close> is looked up under \<open>a\<close>.
\<close>

theorem get_resource_manager_qualified_counterexample:
  "CHR ''.'' \<notin> set ''c''
   \<and> provider_name (policy (self_ctx dotted_manager)) = ''a.b''
   \<and> fst (get_resource_manager no_load dotted_manager ''c'' None dotted_registry) =
        Inr (Handler ec2 (self_ctx dotted_manager) [])
   \<and> fst (get_resource_manager no_load dotted_manager (''a.b'' @ ''.'' @ ''c'') None dotted_registry) =
        Inl (ValueError ''b.c'')"
  by (simp add: get_resource_manager_def resolve_names_def split_dot_def dotted_manager_def
      manager_def no_load_def dotted_registry_def data_or_empty_def)

text \<open>
  Claim C10. A call with the empty definition is the call with no definition: the same
  result in the same registry state, for every caller, type, loader and registry.
  When the type resolves to a class whose model has a truthy \<open>config_type\<close> and the
  caller's \<open>source_type\<close> is \<open>config\<close>, both build the handler with
  \<open>{'source': 'config'}\<close>: the empty definition is not passed on.
\<close>

theorem get_resource_manager_empty_definition:
  "get_resource_manager load_resources self rtype (Some []) clouds =
     get_resource_manager load_resources self rtype None clouds
   \<and> (resolve_names self rtype = (pname, rname)
        \<and> load_resources [pname @ ''.'' @ rname] clouds = (None, clouds')
        \<and> clouds' pname = Some prov \<and> resources prov rname = Some k
        \<and> source_type self = ''config'' \<and> truthy (getattr_config_type (get_model k)) \<longrightarrow>
      get_resource_manager load_resources self rtype (Some []) clouds =
        (Inr (Handler k (self_ctx self) [(''source'', VStr ''config'')]), clouds')
      \<and> get_resource_manager load_resources self rtype None clouds =
        (Inr (Handler k (self_ctx self) [(''source'', VStr ''config'')]), clouds'))"
proof -
  have same: "get_resource_manager load_resources self rtype (Some []) clouds =
     get_resource_manager load_resources self rtype None clouds"
    by (simp add: get_resource_manager_def data_or_empty_def split: prod.splits option.splits)
  have "get_resource_manager load_resources self rtype (Some []) clouds =
        (Inr (Handler k (self_ctx self) [(''source'', VStr ''config'')]), clouds')"
    if "resolve_names self rtype = (pname, rname)"
      and "load_resources [pname @ ''.'' @ rname] clouds = (None, clouds')"
      and "clouds' pname = Some prov" and "resources prov rname = Some k"
      and "source_type self = ''config''" and "truthy (getattr_config_type (get_model k))"
    using that by (simp add: get_resource_manager_def)
  with same show ?thesis by simp
qed

theorem get_resource_manager_empty_definition_witness:
  "resolve_names config_manager ''aws.ec2'' = (''aws'', ''ec2'')
   \<and> lazy_load [''aws'' @ ''.'' @ ''ec2''] registry =
        (None, registry(''aws'' \<mapsto> \<lparr>resources = [''ec2'' \<mapsto> ec2]\<rparr>))
   \<and> (registry(''aws'' \<mapsto> \<lparr>resources = [''ec2'' \<mapsto> ec2]\<rparr>)) ''aws'' =
        Some \<lparr>resources = [''ec2'' \<mapsto> ec2]\<rparr>
   \<and> resources \<lparr>resources = [''ec2'' \<mapsto> ec2]\<rparr> ''ec2'' = Some ec2
   \<and> source_type config_manager = ''config''
   \<and> truthy (getattr_config_type (get_model ec2))
   \<and> get_resource_manager lazy_load config_manager ''aws.ec2'' (Some []) registry =
        (Inr (Handler ec2 (self_ctx config_manager) [(''source'', VStr ''config'')]),
         registry(''aws'' \<mapsto> \<lparr>resources = [''ec2'' \<mapsto> ec2]\<rparr>))
   \<and> get_resource_manager lazy_load config_manager ''aws.ec2'' None registry =
        (Inr (Handler ec2 (self_ctx config_manager) [(''source'', VStr ''config'')]),
         registry(''aws'' \<mapsto> \<lparr>resources = [''ec2'' \<mapsto> ec2]\<rparr>))"
proof -
  have n: "resolve_names config_manager ''aws.ec2'' = (''aws'', ''ec2'')"
    by (simp add: resolve_names_def split_dot_def)
  show ?thesis
    using get_resource_manager_empty_definition
          [where self = config_manager and rtype = "''aws.ec2''" and pname = "''aws''"
             and rname = "''ec2''" and load_resources = lazy_load and clouds = registry
             and clouds' = "registry(''aws'' \<mapsto> \<lparr>resources = [''ec2'' \<mapsto> ec2]\<rparr>)"
             and prov = "\<lparr>resources = [''ec2'' \<mapsto> ec2]\<rparr>" and k = ec2]
      n ec2_found
    by simp
qed


end
